theory Spec2Isabelle
  imports Complex_Main "HOL-Library.Word"
begin

section \<open>Data model of the voice-assistant client\<close>

text \<open>
  The program keeps its session in package-level variables: \<open>currentState\<close>, the
  websocket connection \<open>conn\<close> and the playback buffer \<open>audioOut\<close>. Every function
  of the source reads and assigns them; here each function takes the record of these
  variables and returns it updated. Log lines are not part of the model.
\<close>

type_synonym byte = "8 word"
type_synonym int16 = "16 word"

definition sampleRate :: nat where
  "sampleRate = 16000"

definition channels :: nat where
  "channels = 1"

definition frameDurationMs :: nat where
  "frameDurationMs = 60"

definition sessionID :: string where
  "sessionID = ''session_123''"

text \<open>\<open>type State string\<close> with its five named constants.\<close>

type_synonym State = string

abbreviation Idle :: State where "Idle \<equiv> ''Idle''"
abbreviation Connected :: State where "Connected \<equiv> ''Connected''"
abbreviation Listening :: State where "Listening \<equiv> ''Listening''"
abbreviation Speaking :: State where "Speaking \<equiv> ''Speaking''"

text \<open>
  Go values as far as the JSON encoder tells them apart: the kind of a value decides
  whether \<open>omitempty\<close> drops it.
\<close>

datatype GoValue =
    GString string
  | GInt int
  | GFloat real
  | GStruct "(string \<times> GoValue) list"
  | GSlice "GoValue list"
  | GMap "(string \<times> GoValue) list"
  | GInterface "GoValue option"

record AudioParams =
  Format :: string
  SampleRate :: int
  Channels :: int
  FrameDuration :: int

record Message =
  Type :: string
  Version :: int
  Transport :: string
  AudioParams :: AudioParams
  SessionID :: string
  State :: string
  Mode :: string
  Text :: string
  Reason :: string
  Descriptors :: "GoValue option"
  States :: "GoValue option"
  Commands :: "string list"
  Emotion :: string

text \<open>The zero value of each struct, which a composite literal starts from.\<close>

definition AudioParams0 :: AudioParams where
  "AudioParams0 = \<lparr>Format = [], SampleRate = 0, Channels = 0, FrameDuration = 0\<rparr>"

definition Message0 :: Message where
  "Message0 = \<lparr>Type = [], Version = 0, Transport = [], AudioParams = AudioParams0,
     SessionID = [], State = [], Mode = [], Text = [], Reason = [],
     Descriptors = None, States = None, Commands = [], Emotion = []\<rparr>"

text \<open>What is written to the connection: a JSON text frame, a binary frame or a close frame.\<close>

datatype Frame = TextFrame Message | BinaryFrame "byte list" | CloseFrame

record AudioBuffer =
  data :: "int16 list list"

text \<open>
  \<open>conn\<close> is the connection seen from the program: the frames handed to its write
  calls so far, oldest first, each with whether the write returned without error.
  \<open>main\<close> assigns \<open>conn\<close> before it starts anything else and exits when the dial
  fails, so \<open>conn\<close> is not nil in any function below.
\<close>

record World =
  currentState :: State
  conn :: "(Frame \<times> bool) list"
  audioOut :: AudioBuffer

text \<open>
  The collaborators the program calls and does not implement: the Opus encoder and decoder
  (\<open>None\<close> is the error return) and \<open>json.Unmarshal\<close> into a \<open>Message\<close>.
\<close>

record Extern =
  Encode :: "int16 list \<Rightarrow> byte list option"
  Decode :: "byte list \<Rightarrow> int16 list option"
  Unmarshal :: "byte list \<Rightarrow> Message option"

text \<open>Message types of the websocket library.\<close>

definition TextMessage :: int where "TextMessage = 1"
definition BinaryMessage :: int where "BinaryMessage = 2"
definition CloseMessage :: int where "CloseMessage = 8"

text \<open>One return of \<open>conn.ReadMessage()\<close>: an error, or a message type and its payload.\<close>

datatype ReadResult = ReadErr | ReadOk int "byte list"

section \<open>Writing to the connection\<close>

definition WriteJSON :: "'a World_scheme \<Rightarrow> Message \<Rightarrow> bool \<Rightarrow> 'a World_scheme" where
  "WriteJSON w m ok = w\<lparr>conn := conn w @ [(TextFrame m, ok)]\<rparr>"

definition WriteMessage :: "'a World_scheme \<Rightarrow> Frame \<Rightarrow> bool \<Rightarrow> 'a World_scheme" where
  "WriteMessage w f ok = w\<lparr>conn := conn w @ [(f, ok)]\<rparr>"

section \<open>Connecting and the handshake\<close>




definition hello :: Message where
  "hello = Message0\<lparr>Type := ''hello'', Version := 1, Transport := ''websocket'',
     AudioParams := \<lparr>Format = ''opus'', SampleRate = int sampleRate,
       Channels = int channels, FrameDuration = int frameDurationMs\<rparr>\<rparr>"

definition sendHello :: "'a World_scheme \<Rightarrow> bool \<Rightarrow> 'a World_scheme" where
  "sendHello w ok = WriteJSON w hello ok"

section \<open>The audio callback\<close>

text \<open>
  Go's builtin \<open>copy(dst, src)\<close>: the first \<open>min (len dst) (len src)\<close> elements of
  \<open>dst\<close> are overwritten, the rest of \<open>dst\<close> stays.
\<close>

definition go_copy :: "'a list \<Rightarrow> 'a list \<Rightarrow> 'a list" where
  "go_copy dst src = take (length dst) src @ drop (length src) dst"

text \<open>The second half of \<open>audioCallback\<close>: one frame of the buffer, or silence.\<close>

definition audioOutput :: "'a World_scheme \<Rightarrow> int16 list \<Rightarrow> 'a World_scheme \<times> int16 list" where
  "audioOutput w out =
     (case data (audioOut w) of
        f # fs \<Rightarrow>
          (if currentState w = Speaking
           then (w\<lparr>audioOut := (audioOut w)\<lparr>data := fs\<rparr>\<rparr>, go_copy out f)
           else (w, replicate (length out) 0))
      | [] \<Rightarrow> (w, replicate (length out) 0))"

text \<open>
  \<open>audioCallback in out\<close>: the result is the world and the contents of \<open>out\<close> when the
  callback returns. The last argument is whether the binary write succeeds.
\<close>

definition audioCallback ::
  "Extern \<Rightarrow> 'a World_scheme \<Rightarrow> int16 list \<Rightarrow> int16 list \<Rightarrow> bool \<Rightarrow> 'a World_scheme \<times> int16 list" where
  "audioCallback ext w inp out wr =
     (if currentState w = Listening then
        (case Encode ext inp of
           None \<Rightarrow> (w, out)
         | Some pkt \<Rightarrow> audioOutput (WriteMessage w (BinaryFrame pkt) wr) out)
      else audioOutput w out)"

section \<open>Inbound control messages\<close>

definition handleServerMessage :: "'a World_scheme \<Rightarrow> Message \<Rightarrow> 'a World_scheme" where
  "handleServerMessage w msg =
     (if Type msg = ''hello'' then
        (if Transport msg = ''websocket'' then w\<lparr>currentState := Connected\<rparr> else w)
      else if Type msg = ''stt'' then w
      else if Type msg = ''tts'' then
        (if State msg = ''start'' then
           (w\<lparr>currentState := Speaking\<rparr>)\<lparr>audioOut := (audioOut w)\<lparr>data := []\<rparr>\<rparr>
         else if State msg = ''stop'' then w\<lparr>currentState := Connected\<rparr>
         else if State msg = ''sentence_start'' then w
         else w)
      else if Type msg = ''iot'' then w
      else if Type msg = ''llm'' then w
      else w)"

section \<open>The receive loop\<close>

definition frameSize :: nat where
  "frameSize = sampleRate * frameDurationMs div 1000"

text \<open>
  The PCM slice of a binary message: \<open>make([]int16, frameSize)\<close>, into which the
  decoder writes its samples.
\<close>

definition pcm_of :: "int16 list \<Rightarrow> int16 list" where
  "pcm_of samples = go_copy (replicate frameSize 0) samples"

text \<open>
  One iteration of the loop of \<open>receiveMessages\<close>, with the result of its read. The
  flag says whether the loop goes on to the next read (\<open>False\<close>: the function returned).
\<close>

definition receiveStep :: "Extern \<Rightarrow> 'a World_scheme \<Rightarrow> ReadResult \<Rightarrow> 'a World_scheme \<times> bool" where
  "receiveStep ext w r =
     (case r of
        ReadErr \<Rightarrow> (w\<lparr>currentState := Idle\<rparr>, False)
      | ReadOk msgType payload \<Rightarrow>
          (if msgType = TextMessage then
             (case Unmarshal ext payload of
                None \<Rightarrow> (w, True)
              | Some msg \<Rightarrow> (handleServerMessage w msg, True))
           else if msgType = BinaryMessage then
             (case Decode ext payload of
                None \<Rightarrow> (w, True)
              | Some samples \<Rightarrow>
                  (if currentState w = Speaking
                   then (w\<lparr>audioOut := (audioOut w)\<lparr>data := data (audioOut w) @ [pcm_of samples]\<rparr>\<rparr>, True)
                   else (w, True)))
           else if msgType = CloseMessage then (w, False)
           else (w, True)))"

text \<open>
  The loop over the reads the connection delivers. With the reads used up the loop is
  blocked in the next read: the flag is \<open>True\<close>.
\<close>

fun receiveMessages :: "Extern \<Rightarrow> 'a World_scheme \<Rightarrow> ReadResult list \<Rightarrow> 'a World_scheme \<times> bool" where
  "receiveMessages ext w [] = (w, True)"
| "receiveMessages ext w (r # rs) =
     (case receiveStep ext w r of
        (w', True) \<Rightarrow> receiveMessages ext w' rs
      | (w', False) \<Rightarrow> (w', False))"

section \<open>User operations\<close>

definition startListening :: "'a World_scheme \<Rightarrow> bool \<Rightarrow> 'a World_scheme" where
  "startListening w wr =
     (if currentState w \<noteq> Connected then w
      else
        (let listen = Message0\<lparr>SessionID := sessionID, Type := ''listen'',
               State := ''start'', Mode := ''manual''\<rparr>;
             w1 = WriteJSON w listen wr
         in if \<not> wr then w1 else w1\<lparr>currentState := Listening\<rparr>))"

definition stopListening :: "'a World_scheme \<Rightarrow> bool \<Rightarrow> 'a World_scheme" where
  "stopListening w wr =
     (if currentState w \<noteq> Listening then w
      else
        (let listen = Message0\<lparr>SessionID := sessionID, Type := ''listen'',
               State := ''stop'', Mode := ''manual''\<rparr>;
             w1 = WriteJSON w listen wr
         in if \<not> wr then w1 else w1\<lparr>currentState := Connected\<rparr>))"

definition sendWakeWord :: "'a World_scheme \<Rightarrow> string \<Rightarrow> bool \<Rightarrow> 'a World_scheme" where
  "sendWakeWord w text wr =
     (if currentState w \<noteq> Listening then w
      else
        (let wake = Message0\<lparr>SessionID := sessionID, Type := ''listen'',
               State := ''detect'', Text := text\<rparr>
         in WriteJSON w wake wr))"

definition abortSession :: "'a World_scheme \<Rightarrow> string \<Rightarrow> bool \<Rightarrow> 'a World_scheme" where
  "abortSession w reason wr =
     (let abort = Message0\<lparr>SessionID := sessionID, Type := ''abort'', Reason := reason\<rparr>;
          w1 = WriteJSON w abort wr
      in if \<not> wr then w1 else w1\<lparr>currentState := Connected\<rparr>)"

definition iotStates :: GoValue where
  "iotStates = GMap [(''temperature'', GFloat 25.5), (''light'', GString ''on'')]"

definition sendIoTStates :: "'a World_scheme \<Rightarrow> bool \<Rightarrow> 'a World_scheme" where
  "sendIoTStates w wr =
     (let iot = Message0\<lparr>SessionID := sessionID, Type := ''iot'', States := Some iotStates\<rparr>
      in WriteJSON w iot wr)"


text \<open>The wake word of the menu, as the bytes of its UTF-8 encoding.\<close>

definition wakeWord :: string where
  "wakeWord = [CHR 0xE4, CHR 0xBD, CHR 0xA0, CHR 0xE5, CHR 0xA5, CHR 0xBD,
               CHR 0xE5, CHR 0xB0, CHR 0x8F, CHR 0xE6, CHR 0x99, CHR 0xBA]"


section \<open>The program as a machine over triggers\<close>

text \<open>The package-level variables as they are initialised.\<close>

definition initial :: World where
  "initial = \<lparr>currentState = Idle, conn = [], audioOut = \<lparr>data = []\<rparr>\<rparr>"











section \<open>The audio device driving the callback\<close>

text \<open>
  The device calls \<open>audioCallback\<close> once per frame period. Each call comes with the
  captured input, the output region as the device hands it over, and the outcome of the
  write the call may make; the outputs are collected in order.
\<close>

fun playback ::
  "Extern \<Rightarrow> 'a World_scheme \<Rightarrow> (int16 list \<times> int16 list \<times> bool) list \<Rightarrow>
   'a World_scheme \<times> int16 list list" where
  "playback ext w [] = (w, [])"
| "playback ext w ((inp, out, wr) # calls) =
     (case audioCallback ext w inp out wr of
        (w1, out1) \<Rightarrow>
          (case playback ext w1 calls of (w2, outs) \<Rightarrow> (w2, out1 # outs)))"

section \<open>The JSON encoding of outbound messages\<close>

text \<open>
  \<open>conn.WriteJSON\<close> encodes a \<open>Message\<close> with Go's \<open>encoding/json\<close>. The encoder
  walks the fields of the struct in order and leaves out a field tagged \<open>omitempty\<close>
  when its value is empty: false, 0, a nil pointer, a nil interface value, or an array,
  slice, map or string of length zero. A struct value is never empty.
\<close>

fun isEmptyValue :: "GoValue \<Rightarrow> bool" where
  "isEmptyValue (GString s) \<longleftrightarrow> length s = 0"
| "isEmptyValue (GInt i) \<longleftrightarrow> i = 0"
| "isEmptyValue (GFloat x) \<longleftrightarrow> x = 0"
| "isEmptyValue (GStruct fs) \<longleftrightarrow> False"
| "isEmptyValue (GSlice xs) \<longleftrightarrow> length xs = 0"
| "isEmptyValue (GMap kvs) \<longleftrightarrow> length kvs = 0"
| "isEmptyValue (GInterface v) \<longleftrightarrow> v = None"

text \<open>A struct field as the encoder sees it: its JSON key, whether it is tagged \<open>omitempty\<close>, its value.\<close>

type_synonym field = "string \<times> bool \<times> GoValue"

definition AudioParams_fields :: "AudioParams \<Rightarrow> field list" where
  "AudioParams_fields p =
     [(''format'', False, GString (Format p)),
      (''sample_rate'', False, GInt (SampleRate p)),
      (''channels'', False, GInt (Channels p)),
      (''frame_duration'', False, GInt (FrameDuration p))]"

definition Message_fields :: "Message \<Rightarrow> field list" where
  "Message_fields m =
     [(''type'', False, GString (Type m)),
      (''version'', True, GInt (Version m)),
      (''transport'', True, GString (Transport m)),
      (''audio_params'', True,
         GStruct (map (\<lambda>(k, om, v). (k, v)) (AudioParams_fields (AudioParams m)))),
      (''session_id'', True, GString (SessionID m)),
      (''state'', True, GString (State m)),
      (''mode'', True, GString (Mode m)),
      (''text'', True, GString (Text m)),
      (''reason'', True, GString (Reason m)),
      (''descriptors'', True, GInterface (Descriptors m)),
      (''states'', True, GInterface (States m)),
      (''commands'', True, GSlice (map GString (Commands m))),
      (''emotion'', True, GString (Emotion m))]"

definition marshal_fields :: "field list \<Rightarrow> (string \<times> GoValue) list" where
  "marshal_fields fs =
     map (\<lambda>(k, om, v). (k, v)) (filter (\<lambda>(k, om, v). \<not> (om \<and> isEmptyValue v)) fs)"

text \<open>The keys of the JSON object a message is written as, in order.\<close>

definition json_keys :: "Message \<Rightarrow> string list" where
  "json_keys m = map fst (marshal_fields (Message_fields m))"

definition wire_keys :: "Frame \<times> bool \<Rightarrow> string list" where
  "wire_keys fr = (case fst fr of TextFrame m \<Rightarrow> json_keys m | BinaryFrame b \<Rightarrow> [] | CloseFrame \<Rightarrow> [])"

section \<open>The keyboard variant: resuming to listen after playback\<close>

text \<open>
  The second program of the repository has the same functions and adds three variables:
  \<open>isRecording\<close>, the channel \<open>listeningChan\<close> and the timer \<open>listeningTimer\<close>.
  \<open>listeningChan\<close> is unbuffered, and the only senders are the goroutines started when
  playback ends, each of which sleeps for the settle delay and then sends once; the field
  counts the goroutines that are started and whose value is not yet received. A timer is
  a handle with its duration in seconds; \<open>timers\<close> holds the armed ones.
\<close>

record World2 = World +
  isRecording :: bool
  listeningChan :: nat
  listeningTimer :: "nat option"
  timers :: "(nat \<times> nat) list"
  timerCount :: nat


text \<open>An armed timer fires: \<open>if isRecording { stopListening(); isRecording = false }\<close>.\<close>

definition timerFired :: "World2 \<Rightarrow> nat \<Rightarrow> bool \<Rightarrow> World2" where
  "timerFired w h wr =
     (if h \<notin> fst ` set (timers w) then w
      else
        (let w1 = w\<lparr>timers := filter (\<lambda>t. fst t \<noteq> h) (timers w)\<rparr>
         in if isRecording w1 then (stopListening w1 wr)\<lparr>isRecording := False\<rparr> else w1))"




section \<open>Stand-ins for the collaborators\<close>

text \<open>
  The functions above take the codec and the JSON decoder as parameters. To run them on
  concrete inputs, this stand-in decodes three control messages from their JSON text and
  rejects everything else; its encoder fails on an empty capture and its decoder on an
  empty payload.
\<close>

definition bytes :: "string \<Rightarrow> byte list" where
  "bytes s = map (\<lambda>c. of_nat (of_char c)) s"

definition tts_start :: Message where
  "tts_start = Message0\<lparr>Type := ''tts'', State := ''start''\<rparr>"

definition tts_stop :: Message where
  "tts_stop = Message0\<lparr>Type := ''tts'', State := ''stop''\<rparr>"

definition server_hello :: Message where
  "server_hello = Message0\<lparr>Type := ''hello'', Transport := ''websocket''\<rparr>"

definition ext0 :: Extern where
  \<open>ext0 = \<lparr>
     Encode = (\<lambda>inp. if inp = [] then None else Some [0]),
     Decode = (\<lambda>payload. if payload = [] then None else Some (map ucast payload)),
     Unmarshal = (\<lambda>payload.
       if payload = bytes ''{"type":"tts","state":"start"}'' then Some tts_start
       else if payload = bytes ''{"type":"tts","state":"stop"}'' then Some tts_stop
       else if payload = bytes ''{"type":"hello","transport":"websocket"}'' then Some server_hello
       else None)\<rparr>\<close>

text \<open>The same collaborators with an encoder that returns an error on every capture.\<close>

definition ext_encode_fails :: Extern where
  "ext_encode_fails = ext0\<lparr>Encode := (\<lambda>inp. None)\<rparr>"

section \<open>Guarded sends\<close>

text \<open>
  Claim C1. A guarded send outside its precondition state does nothing: \<open>startListening\<close>
  when the state is not \<open>Connected\<close>, \<open>stopListening\<close> and \<open>sendWakeWord\<close> when
  it is not \<open>Listening\<close>, return the world as it was, so the state is unchanged and no
  frame is handed to the connection, whatever a write would have returned.
\<close>

theorem guarded_sends_noop:
  "(currentState w \<noteq> Connected \<longrightarrow> startListening w wr = w) \<and>
   (currentState w \<noteq> Listening \<longrightarrow> stopListening w wr = w) \<and>
   (currentState w \<noteq> Listening \<longrightarrow> sendWakeWord w txt wr = w)"
  by (simp add: startListening_def stopListening_def sendWakeWord_def)

text \<open>In the initial world, which is \<open>Idle\<close>, none of the three guards is met.\<close>

theorem guarded_sends_noop_witness:
  "currentState initial \<noteq> Connected \<and> startListening initial True = initial \<and>
   currentState initial \<noteq> Listening \<and> stopListening initial True = initial \<and>
   sendWakeWord initial wakeWord True = initial"
  using guarded_sends_noop [of initial True wakeWord] by (simp add: initial_def)

section \<open>The session state machine\<close>

lemma audioOutput_state: "currentState (fst (audioOutput w out)) = currentState w"
  by (simp add: audioOutput_def split: list.splits)

lemma audioCallback_state: "currentState (fst (audioCallback ext w inp out wr)) = currentState w"
  by (simp add: audioCallback_def audioOutput_state WriteMessage_def split: option.splits)











lemma unmarshal_start:
  "Unmarshal ext0 (bytes ''{\"type\":\"tts\",\"state\":\"start\"}'') = Some tts_start"
  by (simp add: ext0_def bytes_def)







section \<open>Entering Speaking\<close>

text \<open>
  Claim C3. Right after \<open>handleServerMessage\<close> has processed a \<open>tts\<close> message whose
  state is \<open>start\<close>, the session is \<open>Speaking\<close> and the playback buffer is empty,
  whatever the buffer held and whatever the state was.
\<close>

theorem tts_start_enters_speaking_with_empty_buffer:
  "Type msg = ''tts'' \<and> State msg = ''start'' \<longrightarrow>
     currentState (handleServerMessage w msg) = Speaking \<and>
     data (audioOut (handleServerMessage w msg)) = []"
  by (simp add: handleServerMessage_def)

text \<open>A session that is \<open>Listening\<close> with two stale frames in the buffer.\<close>

theorem tts_start_enters_speaking_witness:
  "Type tts_start = ''tts'' \<and> State tts_start = ''start'' \<and>
   data (audioOut (initial\<lparr>currentState := Listening, audioOut := \<lparr>data = [[1, 2], [3]]\<rparr>\<rparr>)) \<noteq> [] \<and>
   currentState (handleServerMessage
     (initial\<lparr>currentState := Listening, audioOut := \<lparr>data = [[1, 2], [3]]\<rparr>\<rparr>) tts_start) = Speaking \<and>
   data (audioOut (handleServerMessage
     (initial\<lparr>currentState := Listening, audioOut := \<lparr>data = [[1, 2], [3]]\<rparr>\<rparr>) tts_start)) = []"
  using tts_start_enters_speaking_with_empty_buffer
    [of tts_start "initial\<lparr>currentState := Listening, audioOut := \<lparr>data = [[1, 2], [3]]\<rparr>\<rparr>"]
  by (simp add: tts_start_def Message0_def initial_def)

section \<open>Failed writes\<close>

text \<open>
  Claim C10. In \<open>startListening\<close>, \<open>stopListening\<close> and \<open>abortSession\<close> the state
  is assigned only after the write has succeeded: when the write returns an error, the
  state after the call is the state before it.
\<close>

theorem failed_write_keeps_state:
  "currentState (startListening w False) = currentState w \<and>
   currentState (stopListening w False) = currentState w \<and>
   currentState (abortSession w reason False) = currentState w"
  by (simp add: startListening_def stopListening_def abortSession_def WriteJSON_def Let_def)

section \<open>The output of the audio callback\<close>

lemma frameSize_pos: "0 < frameSize"
  by (simp add: frameSize_def sampleRate_def frameDurationMs_def)

lemma audioCallback_silence:
  assumes "currentState w \<noteq> Speaking \<or> data (audioOut w) = []"
    and "currentState w = Listening \<longrightarrow> Encode ext inp \<noteq> None"
  shows "snd (audioCallback ext w inp out wr) = replicate (length out) 0"
  using assms
  by (auto simp: audioCallback_def audioOutput_def WriteMessage_def split: list.splits option.splits)

lemma audioCallback_encode_failure:
  "currentState w = Listening \<Longrightarrow> Encode ext inp = None \<Longrightarrow>
   audioCallback ext w inp out wr = (w, out)"
  by (simp add: audioCallback_def)

text \<open>
  Claim C4 does not hold of the program. The callback writes silence when the session is
  not \<open>Speaking\<close> or the buffer is empty, except when the session is \<open>Listening\<close>
  and the encoder fails: then it returns before it reaches the output, and \<open>out\<close> keeps
  what it held on entry. Here the session is \<open>Listening\<close>, the encoder returns an
  error for the captured frame, and an output region full of the sample 5 comes back as it
  went in.
\<close>

theorem encode_failure_leaves_output_untouched:
  "currentState (initial\<lparr>currentState := Listening\<rparr>) \<noteq> Speaking \<and>
   data (audioOut (initial\<lparr>currentState := Listening\<rparr>)) = [] \<and>
   Encode ext_encode_fails (replicate frameSize 0) = None \<and>
   audioCallback ext_encode_fails (initial\<lparr>currentState := Listening\<rparr>)
       (replicate frameSize 0) (replicate frameSize 5) True =
     (initial\<lparr>currentState := Listening\<rparr>, replicate frameSize 5) \<and>
   replicate frameSize (5 :: int16) \<noteq> replicate frameSize 0"
  by (simp add: audioCallback_def initial_def ext_encode_fails_def frameSize_pos)

section \<open>The playback buffer is a queue\<close>

lemma go_copy_same_length: "length dst = length src \<Longrightarrow> go_copy dst src = src"
  by (simp add: go_copy_def)

lemma length_pcm_of: "length (pcm_of samples) = frameSize"
  by (simp add: pcm_of_def go_copy_def)

lemma audioCallback_speaking:
  "currentState w = Speaking \<Longrightarrow> data (audioOut w) = f # fs \<Longrightarrow>
   audioCallback ext w inp out wr = (w\<lparr>audioOut := (audioOut w)\<lparr>data := fs\<rparr>\<rparr>, go_copy out f)"
  by (simp add: audioCallback_def audioOutput_def)

lemma receiveStep_binary_speaking:
  "currentState w = Speaking \<Longrightarrow> Decode ext p = Some s \<Longrightarrow>
   receiveStep ext w (ReadOk BinaryMessage p) =
     (w\<lparr>audioOut := (audioOut w)\<lparr>data := data (audioOut w) @ [pcm_of s]\<rparr>\<rparr>, True)"
  by (simp add: receiveStep_def BinaryMessage_def TextMessage_def)

lemma receive_binary_appends:
  "currentState w = Speaking \<Longrightarrow> \<forall>p \<in> set payloads. Decode ext p \<noteq> None \<Longrightarrow>
   receiveMessages ext w (map (ReadOk BinaryMessage) payloads) =
     (w\<lparr>audioOut := (audioOut w)\<lparr>data := data (audioOut w) @
         map (\<lambda>p. pcm_of (the (Decode ext p))) payloads\<rparr>\<rparr>, True)"
proof (induction payloads arbitrary: w)
  case Nil
  then show ?case by simp
next
  case (Cons p ps)
  from Cons.prems obtain s where s: "Decode ext p = Some s" by auto
  let ?w1 = "w\<lparr>audioOut := (audioOut w)\<lparr>data := data (audioOut w) @ [pcm_of s]\<rparr>\<rparr>"
  have st: "receiveStep ext w (ReadOk BinaryMessage p) = (?w1, True)"
    using Cons.prems(1) s by (rule receiveStep_binary_speaking)
  have "receiveMessages ext ?w1 (map (ReadOk BinaryMessage) ps) =
     (?w1\<lparr>audioOut := (audioOut ?w1)\<lparr>data := data (audioOut ?w1) @
         map (\<lambda>p. pcm_of (the (Decode ext p))) ps\<rparr>\<rparr>, True)"
    using Cons.prems by (intro Cons.IH) simp_all
  then show ?case using st s by simp
qed

lemma playback_drains:
  "currentState w = Speaking \<Longrightarrow> data (audioOut w) = frames @ rest \<Longrightarrow>
   length calls = length frames \<Longrightarrow>
   \<forall>c \<in> set calls. length (fst (snd c)) = n \<Longrightarrow> \<forall>f \<in> set frames. length f = n \<Longrightarrow>
   playback ext w calls = (w\<lparr>audioOut := (audioOut w)\<lparr>data := rest\<rparr>\<rparr>, frames)"
proof (induction calls arbitrary: w frames)
  case Nil
  then show ?case by simp
next
  case (Cons c cs)
  obtain inp out wr where c: "c = (inp, out, wr)" by (cases c)
  from Cons.prems(3) obtain f fs where fr: "frames = f # fs" by (cases frames) auto
  let ?w1 = "w\<lparr>audioOut := (audioOut w)\<lparr>data := fs @ rest\<rparr>\<rparr>"
  have cb: "audioCallback ext w inp out wr = (?w1, f)"
    using Cons.prems c fr by (simp add: audioCallback_speaking go_copy_same_length)
  have "playback ext ?w1 cs = (?w1\<lparr>audioOut := (audioOut ?w1)\<lparr>data := rest\<rparr>\<rparr>, fs)"
    using Cons.prems fr by (intro Cons.IH) simp_all
  then show ?case using cb c fr by simp
qed

text \<open>
  Claim C5. While the session is \<open>Speaking\<close> and the buffer is not empty, one call of
  \<open>audioCallback\<close> takes the first frame off the buffer and copies it to the output
  (the output is that frame when the two have the same length), and the buffer is one
  frame shorter. The receive path appends a decoded frame at the end. So the frames of a
  sequence of binary messages received into an empty buffer come out of as many callbacks
  in the order they arrived, and the buffer is empty again.
\<close>

theorem playback_is_fifo:
  "(currentState w = Speaking \<and> data (audioOut w) = f # fs \<longrightarrow>
      audioCallback ext w inp out wr =
        (w\<lparr>audioOut := (audioOut w)\<lparr>data := fs\<rparr>\<rparr>, go_copy out f) \<and>
      (length out = length f \<longrightarrow> snd (audioCallback ext w inp out wr) = f) \<and>
      Suc (length (data (audioOut (fst (audioCallback ext w inp out wr))))) =
        length (data (audioOut w))) \<and>
   (currentState w = Speaking \<and> Decode ext p = Some s \<longrightarrow>
      data (audioOut (fst (receiveStep ext w (ReadOk BinaryMessage p)))) =
        data (audioOut w) @ [pcm_of s]) \<and>
   (currentState w0 = Speaking \<and> data (audioOut w0) = [] \<and>
    (\<forall>p \<in> set payloads. Decode ext p \<noteq> None) \<and>
    length calls = length payloads \<and>
    (\<forall>c \<in> set calls. length (fst (snd c)) = frameSize) \<longrightarrow>
      data (audioOut (fst (receiveMessages ext w0 (map (ReadOk BinaryMessage) payloads)))) =
        map (\<lambda>p. pcm_of (the (Decode ext p))) payloads \<and>
      snd (playback ext (fst (receiveMessages ext w0 (map (ReadOk BinaryMessage) payloads))) calls) =
        map (\<lambda>p. pcm_of (the (Decode ext p))) payloads \<and>
      data (audioOut (fst (playback ext
        (fst (receiveMessages ext w0 (map (ReadOk BinaryMessage) payloads))) calls))) = [])"
proof -
  have one: "currentState w = Speaking \<and> data (audioOut w) = f # fs \<longrightarrow>
      audioCallback ext w inp out wr =
        (w\<lparr>audioOut := (audioOut w)\<lparr>data := fs\<rparr>\<rparr>, go_copy out f) \<and>
      (length out = length f \<longrightarrow> snd (audioCallback ext w inp out wr) = f) \<and>
      Suc (length (data (audioOut (fst (audioCallback ext w inp out wr))))) =
        length (data (audioOut w))"
    by (simp add: audioCallback_speaking go_copy_same_length)
  have app: "currentState w = Speaking \<and> Decode ext p = Some s \<longrightarrow>
      data (audioOut (fst (receiveStep ext w (ReadOk BinaryMessage p)))) =
        data (audioOut w) @ [pcm_of s]"
    by (simp add: receiveStep_binary_speaking)
  have many: "data (audioOut (fst (receiveMessages ext w0 (map (ReadOk BinaryMessage) payloads)))) =
        map (\<lambda>p. pcm_of (the (Decode ext p))) payloads \<and>
      snd (playback ext (fst (receiveMessages ext w0 (map (ReadOk BinaryMessage) payloads))) calls) =
        map (\<lambda>p. pcm_of (the (Decode ext p))) payloads \<and>
      data (audioOut (fst (playback ext
        (fst (receiveMessages ext w0 (map (ReadOk BinaryMessage) payloads))) calls))) = []"
    if sp: "currentState w0 = Speaking" and em: "data (audioOut w0) = []"
      and dec: "\<forall>p \<in> set payloads. Decode ext p \<noteq> None"
      and len: "length calls = length payloads"
      and outs: "\<forall>c \<in> set calls. length (fst (snd c)) = frameSize"
  proof -
    let ?frames = "map (\<lambda>p. pcm_of (the (Decode ext p))) payloads"
    let ?w1 = "w0\<lparr>audioOut := (audioOut w0)\<lparr>data := ?frames\<rparr>\<rparr>"
    have rx: "receiveMessages ext w0 (map (ReadOk BinaryMessage) payloads) = (?w1, True)"
      using receive_binary_appends [OF sp dec] em by simp
    have pb: "playback ext ?w1 calls = (?w1\<lparr>audioOut := (audioOut ?w1)\<lparr>data := []\<rparr>\<rparr>, ?frames)"
      using sp len outs
      by (intro playback_drains [where n = frameSize]) (simp_all add: length_pcm_of)
    show ?thesis using rx pb by simp
  qed
  show ?thesis using one app many by blast
qed

text \<open>
  Three binary messages A, B, C arrive while the session is \<open>Speaking\<close> with an empty
  buffer, and three callbacks follow: the outputs are the frames of A, B, C in this order.
  For the single call, a buffer of two frames loses its first.
\<close>

theorem playback_is_fifo_witness:
  "currentState (initial\<lparr>currentState := Speaking, audioOut := \<lparr>data = [[1, 2], [3, 4]]\<rparr>\<rparr>) = Speaking \<and>
   audioCallback ext0 (initial\<lparr>currentState := Speaking, audioOut := \<lparr>data = [[1, 2], [3, 4]]\<rparr>\<rparr>)
     [] [9, 9] True =
     (initial\<lparr>currentState := Speaking, audioOut := \<lparr>data = [[3, 4]]\<rparr>\<rparr>, [1, 2]) \<and>
   Decode ext0 [7] = Some [7] \<and>
   data (audioOut (fst (receiveStep ext0
     (initial\<lparr>currentState := Speaking, audioOut := \<lparr>data = [[1, 2], [3, 4]]\<rparr>\<rparr>)
     (ReadOk BinaryMessage [7])))) = [[1, 2], [3, 4], pcm_of [7]] \<and>
   currentState (initial\<lparr>currentState := Speaking\<rparr>) = Speaking \<and>
   data (audioOut (initial\<lparr>currentState := Speaking\<rparr>)) = [] \<and>
   Decode ext0 [1] \<noteq> None \<and> Decode ext0 [2] \<noteq> None \<and> Decode ext0 [3] \<noteq> None \<and>
   length (replicate frameSize (9 :: int16)) = frameSize \<and>
   snd (playback ext0
     (fst (receiveMessages ext0 (initial\<lparr>currentState := Speaking\<rparr>)
        (map (ReadOk BinaryMessage) [[1], [2], [3]])))
     [([], replicate frameSize 9, True), ([], replicate frameSize 9, True),
      ([], replicate frameSize 9, True)]) =
     [pcm_of [1], pcm_of [2], pcm_of [3]]"
  using playback_is_fifo [of "initial\<lparr>currentState := Speaking, audioOut := \<lparr>data = [[1, 2], [3, 4]]\<rparr>\<rparr>"
      "[1, 2]" "[[3, 4]]" ext0 "[]" "[9, 9]" True "[7]" "[7]"
      "initial\<lparr>currentState := Speaking\<rparr>" "[[1], [2], [3]]"
      "[([], replicate frameSize 9, True), ([], replicate frameSize 9, True),
        ([], replicate frameSize 9, True)]"]
  by (simp add: initial_def ext0_def go_copy_def)

section \<open>What a write puts on the wire\<close>

lemma json_key_iff:
  "k \<in> set (map fst (marshal_fields fs)) \<longleftrightarrow>
     (\<exists>om v. (k, om, v) \<in> set fs \<and> \<not> (om \<and> isEmptyValue v))"
  by (force simp: marshal_fields_def)

lemma audio_params_never_omitted: "''audio_params'' \<in> set (json_keys m)"
  unfolding json_keys_def json_key_iff by (auto simp: Message_fields_def)

lemma version_and_transport_omitted_when_empty:
  "(''version'' \<in> set (json_keys m) \<longleftrightarrow> Version m \<noteq> 0) \<and>
   (''transport'' \<in> set (json_keys m) \<longleftrightarrow> Transport m \<noteq> [])"
  unfolding json_keys_def json_key_iff by (auto simp: Message_fields_def)

text \<open>
  Claim C6 does not hold of the program. \<open>AudioParams\<close> is a struct held by value, and
  \<open>omitempty\<close> never drops a struct: the \<open>listen\<close> message that \<open>startListening\<close>
  writes has the key \<open>audio_params\<close>, with the zero value of the struct. \<open>version\<close>
  and \<open>transport\<close> are left out, as are the other empty fields.
\<close>

theorem listen_message_carries_audio_params:
  "map wire_keys (conn (startListening (initial\<lparr>currentState := Connected\<rparr>) True)) =
     [[''type'', ''audio_params'', ''session_id'', ''state'', ''mode'']]"
  by (simp add: startListening_def WriteJSON_def initial_def wire_keys_def json_keys_def
      marshal_fields_def Message_fields_def Message0_def sessionID_def Let_def)

section \<open>Transport failures\<close>

text \<open>
  Claim C7, as amended. A failed read in the receive loop sets the state to \<open>Idle\<close> and
  ends the loop. A failed write leaves the state as it was: in the binary send of
  \<open>audioCallback\<close> and in the control-message send of \<open>sendHello\<close>,
  \<open>startListening\<close>, \<open>stopListening\<close>, \<open>sendWakeWord\<close>, \<open>abortSession\<close> and
  \<open>sendIoTStates\<close>.
\<close>

theorem read_failure_idles_write_failure_does_not:
  "receiveStep ext w ReadErr = (w\<lparr>currentState := Idle\<rparr>, False) \<and>
   receiveMessages ext w (ReadErr # rs) = (w\<lparr>currentState := Idle\<rparr>, False) \<and>
   currentState (fst (audioCallback ext w inp out False)) = currentState w \<and>
   currentState (sendHello w False) = currentState w \<and>
   currentState (startListening w False) = currentState w \<and>
   currentState (stopListening w False) = currentState w \<and>
   currentState (sendWakeWord w txt False) = currentState w \<and>
   currentState (abortSession w reason False) = currentState w \<and>
   currentState (sendIoTStates w False) = currentState w"
  by (simp add: receiveStep_def audioCallback_state sendHello_def startListening_def
      stopListening_def sendWakeWord_def abortSession_def sendIoTStates_def WriteJSON_def Let_def)

text \<open>
  The claim as the specification states it fails on a write: the session is \<open>Connected\<close>,
  the write of \<open>startListening\<close> fails, and the state is \<open>Connected\<close>, not \<open>Idle\<close>.
\<close>

theorem failed_write_does_not_idle_counterexample:
  "currentState (startListening (initial\<lparr>currentState := Connected\<rparr>) False) = Connected \<and>
   currentState (startListening (initial\<lparr>currentState := Connected\<rparr>) False) \<noteq> Idle"
  by (simp add: startListening_def WriteJSON_def initial_def Let_def)

section \<open>Malformed text frames\<close>

lemma unmarshal_truncated: "Unmarshal ext0 (bytes ''{\"type\":'') = None"
  by (simp add: ext0_def bytes_def)

text \<open>
  Claim C9. A text frame that \<open>json.Unmarshal\<close> rejects leaves the world as it is,
  state and playback buffer included, and the loop goes on: the rest of the reads is
  processed as if the frame had not come, so a valid frame after it reaches
  \<open>handleServerMessage\<close>.
\<close>

theorem malformed_text_frame_is_skipped:
  "Unmarshal ext payload = None \<longrightarrow>
     receiveStep ext w (ReadOk TextMessage payload) = (w, True) \<and>
     receiveMessages ext w (ReadOk TextMessage payload # rs) = receiveMessages ext w rs \<and>
     (Unmarshal ext next_payload = Some msg \<longrightarrow>
        receiveMessages ext w [ReadOk TextMessage payload, ReadOk TextMessage next_payload] =
          (handleServerMessage w msg, True))"
  by (simp add: receiveStep_def)

text \<open>A truncated JSON text, followed by a \<open>tts/start\<close> message that takes effect.\<close>

theorem malformed_text_frame_is_skipped_witness:
  "Unmarshal ext0 (bytes ''{\"type\":'') = None \<and>
   receiveStep ext0 (initial\<lparr>currentState := Connected\<rparr>) (ReadOk TextMessage (bytes ''{\"type\":'')) =
     (initial\<lparr>currentState := Connected\<rparr>, True) \<and>
   Unmarshal ext0 (bytes ''{\"type\":\"tts\",\"state\":\"start\"}'') = Some tts_start \<and>
   receiveMessages ext0 (initial\<lparr>currentState := Connected\<rparr>)
     [ReadOk TextMessage (bytes ''{\"type\":''),
      ReadOk TextMessage (bytes ''{\"type\":\"tts\",\"state\":\"start\"}'')] =
     (handleServerMessage (initial\<lparr>currentState := Connected\<rparr>) tts_start, True) \<and>
   currentState (handleServerMessage (initial\<lparr>currentState := Connected\<rparr>) tts_start) = Speaking"
  using malformed_text_frame_is_skipped [of ext0 "bytes ''{\"type\":''"
      "initial\<lparr>currentState := Connected\<rparr>" "[]"
      "bytes ''{\"type\":\"tts\",\"state\":\"start\"}''" tts_start]
  by (simp add: unmarshal_truncated unmarshal_start receiveStep_def handleServerMessage_def
      tts_start_def Message0_def)

section \<open>Resuming to listen after playback\<close>




end
